theory Spec2Isabelle
  imports Main "HOL-Library.Char_ord" "HOL-Library.List_Lexorder" "HOL-Library.Sublist"
begin

section \<open>FERC EQR Explorer: region catalogue and query construction\<close>

text \<open>
  A shallow embedding of the query logic of \<^verbatim>\<open>app.py\<close>: the region table
  \<^verbatim>\<open>BA_REGIONS\<close>, the flattened code list \<^verbatim>\<open>ALL_BAS_FLAT\<close>, the predicate
  builder \<^verbatim>\<open>build_where_clause\<close> and the two query functions
  \<^verbatim>\<open>fetch_market_trends\<close> and \<^verbatim>\<open>fetch_leaderboard\<close>.

  Python strings are modelled as \<open>string\<close> (every literal of the program is ASCII),
  Python integers as \<open>int\<close>, the dictionary \<^verbatim>\<open>BA_REGIONS\<close> as an association list
  in declaration order, and a raised exception as the left summand of \<open>error + 'a\<close>.
\<close>

subsection \<open>Strings\<close>

text \<open>
  A text between single quotes, as the interpolations \<^verbatim>\<open>'{product}'\<close>,
  \<^verbatim>\<open>'{unit}'\<close>, \<^verbatim>\<open>'{ba_selection}'\<close> and \<^verbatim>\<open>'{s3_path}'\<close> produce it.
\<close>

abbreviation squote :: "string \<Rightarrow> string" where
  "squote s \<equiv> CHR 0x27 # s @ [CHR 0x27]"

text \<open>Python's \<^verbatim>\<open>sep.join(xs)\<close>.\<close>

fun str_join :: "string \<Rightarrow> string list \<Rightarrow> string" where
  "str_join sep [] = []"
| "str_join sep [x] = x"
| "str_join sep (x # y # ys) = x @ sep @ str_join sep (y # ys)"

text \<open>
  Python's \<^verbatim>\<open>str\<close> of an integer, which an f-string applies to
  \<^verbatim>\<open>{start_year}\<close> and \<^verbatim>\<open>{end_year}\<close>: decimal digits, most significant first,
  with a leading minus sign for a negative number.
\<close>

definition digit_char :: "nat \<Rightarrow> char" where
  "digit_char d = ''0123456789'' ! (d mod 10)"

fun str_nat :: "nat \<Rightarrow> string" where
  "str_nat n = (if n < 10 then [digit_char n] else str_nat (n div 10) @ [digit_char (n mod 10)])"

declare str_nat.simps [simp del]

definition str_int :: "int \<Rightarrow> string" where
  "str_int i = (if i < 0 then CHR ''-'' # str_nat (nat (- i)) else str_nat (nat i))"

subsection \<open>Regional mapping\<close>

definition BA_REGIONS :: "(string \<times> string list) list" where
  "BA_REGIONS = [
    (''All Regions'', [''All Regions'']),
    (''California (CISO)'', [''CISO'', ''BANC'', ''IID'', ''LDWP'', ''TIDC'', ''WALC'']),
    (''Northwest (NW)'', [''BPAT'', ''AVA'', ''CHPD'', ''DOPD'', ''GCPD'', ''GRID'', ''IPCO'',
       ''NWMT'', ''PACE'', ''PACW'', ''PGE'', ''PSEI'', ''SCL'', ''TPWR'', ''WAUW'']),
    (''Southwest (SW)'', [''AZPS'', ''EPE'', ''NEVP'', ''PNM'', ''SRP'', ''TEPC'', ''WALC'', ''WACM'']),
    (''Midwest (MISO)'', [''MISO'', ''ALTE'', ''ALTW'', ''AMIL'', ''AMMO'', ''AMRN'', ''BREC'',
       ''CIN'', ''CONS'', ''DECO'', ''DPC'', ''GRE'', ''HE'', ''IPL'', ''MEC'', ''MECS'', ''MP'',
       ''NSP'', ''OTP'', ''SIGE'', ''SMP'', ''UPPC'', ''WEC'', ''WPS'']),
    (''Central (SPP)'', [''SPP'', ''AECI'', ''EDE'', ''GRDA'', ''INDN'', ''KCPL'', ''LES'',
       ''NPPD'', ''OKGE'', ''OPPD'', ''SPA'', ''SPS'', ''SWPP'', ''WAUE'', ''WFEC'', ''WR'']),
    (''Southeast (SE)'', [''SOCO'', ''AEC'', ''CPLE'', ''CPLW'', ''DUK'', ''FPC'', ''FPL'',
       ''GVL'', ''HST'', ''JEA'', ''LGEE'', ''SC'', ''SCEG'', ''TAL'', ''TEC'', ''TVA'', ''YAD'']),
    (''Mid-Atlantic (PJM)'', [''PJM'', ''AEBN'', ''AEP'', ''AP'', ''BC'', ''CE'', ''DAY'', ''DE'',
       ''DL'', ''DOM'', ''DPL'', ''DUQ'', ''EKPC'', ''FE'', ''JC'', ''ME'', ''PE'', ''PEP'', ''PL'',
       ''PN'', ''PS'', ''RE'']),
    (''New York (NYISO)'', [''NYIS'']),
    (''New England (ISONE)'', [''ISNE'']),
    (''Canada / Other'', [''AESO'', ''BCHA'', ''CFE'', ''HQT'', ''IESO'', ''MHEB'', ''NBSO'', ''SPC''])
  ]"

text \<open>
  \<^verbatim>\<open>sorted({ba for bas in BA_REGIONS.values() for ba in bas if ba != "All Regions"})\<close>:
  the set comprehension keeps one copy of each code, and \<^verbatim>\<open>sorted\<close> lists them in
  the order of Python strings (code points, lexicographically).
\<close>

definition ALL_BAS_FLAT :: "string list" where
  "ALL_BAS_FLAT =
     sort (remdups [ba. bas \<leftarrow> map snd BA_REGIONS, ba \<leftarrow> bas, ba \<noteq> ''All Regions''])"

subsection \<open>Errors\<close>

text \<open>
  The only exception the query logic itself raises is the \<^verbatim>\<open>KeyError\<close> of the
  subscript \<^verbatim>\<open>BA_REGIONS[region]\<close>; it carries the missing key.
\<close>

datatype error = KeyError string

definition BA_REGIONS_getitem :: "string \<Rightarrow> error + string list" where
  "BA_REGIONS_getitem region =
     (case map_of BA_REGIONS region of
        None \<Rightarrow> Inl (KeyError region)
      | Some regional_bas \<Rightarrow> Inr regional_bas)"

subsection \<open>Query logic\<close>

text \<open>
  The list \<^verbatim>\<open>where\<close> of \<^verbatim>\<open>build_where_clause\<close> as it stands at the
  \<^verbatim>\<open>return\<close>. Each \<^verbatim>\<open>where.append\<close> is a new list \<open>w1\<close>, \<open>w2\<close>, ...;
  the branches are those of the source, in its order. The separator
  \<^verbatim>\<open>"', '"\<close> of the code list is \<open>squote '', ''\<close>.
\<close>

definition where_list ::
  "string \<Rightarrow> string \<Rightarrow> string \<Rightarrow> string \<Rightarrow> string \<Rightarrow> string \<Rightarrow> int \<times> int \<Rightarrow> error + string list"
where
  "where_list product region ba_selection affiliate rate_type service_type year_range =
    (let unit = (if product = ''ENERGY'' then ''$/MWH'' else ''$/KW-MO'');
         w0 = [''product_name = '' @ squote product,
               ''term_name = '' @ squote ''LT'',
               ''rate_units = '' @ squote unit,
               ''rate > 0''];
         (start_year, end_year) = year_range;
         w1 = w0 @ [''CAST(substr(year_quarter, 1, 4) AS INTEGER) BETWEEN '' @ str_int start_year
                      @ '' AND '' @ str_int end_year];
         r2 = (if ba_selection \<noteq> ''All BAs in '' @ region \<and> ba_selection \<noteq> ''All Regions''
               then Inr (w1 @ [''point_of_delivery_balancing_authority = '' @ squote ba_selection])
               else if region \<noteq> ''All Regions''
               then (case BA_REGIONS_getitem region of
                       Inl e \<Rightarrow> Inl e
                     | Inr regional_bas \<Rightarrow>
                         let ba_list_str = str_join (squote '', '') regional_bas
                         in Inr (w1 @ [''point_of_delivery_balancing_authority IN (''
                                         @ squote ba_list_str @ '')'']))
               else Inr w1)
     in case r2 of
          Inl e \<Rightarrow> Inl e
        | Inr w2 \<Rightarrow>
           (let w3 = (if affiliate \<noteq> ''All''
                      then let is_affiliate = (if affiliate = ''Affiliate'' then ''TRUE'' else ''FALSE'')
                           in w2 @ [''contract_affiliate = '' @ is_affiliate]
                      else w2);
                w4 = (if rate_type = ''Market-Based''
                      then w3 @ [''product_type_name = '' @ squote ''MB'']
                      else if rate_type = ''Cost-Based''
                      then w3 @ [''product_type_name = '' @ squote ''CB'']
                      else w3);
                w5 = (if service_type = ''Firm''
                      then w4 @ [''class_name = '' @ squote ''F'']
                      else if service_type = ''Non-Firm''
                      then w4 @ [''class_name = '' @ squote ''NF'']
                      else w4)
            in Inr w5))"

text \<open>\<^verbatim>\<open>build_where_clause\<close> returns \<^verbatim>\<open>" AND ".join(where)\<close>.\<close>

definition build_where_clause ::
  "string \<Rightarrow> string \<Rightarrow> string \<Rightarrow> string \<Rightarrow> string \<Rightarrow> string \<Rightarrow> int \<times> int \<Rightarrow> error + string"
where
  "build_where_clause product region ba_selection affiliate rate_type service_type year_range =
     map_sum id (str_join '' AND '')
       (where_list product region ba_selection affiliate rate_type service_type year_range)"

text \<open>
  The two query functions, from the point where \<^verbatim>\<open>get_con\<close> has returned the
  connection. The call \<^verbatim>\<open>con.execute(query).df()\<close> belongs to the execution
  engine; it is the parameter \<open>execute\<close>, which maps the query text to the rows it
  yields or to the engine's failure.
\<close>

definition s3_path :: string where
  "s3_path = ''s3://pudl.catalyst.coop/ferceqr/core_ferceqr__contracts/*.parquet''"

definition fetch_market_trends ::
  "(string \<Rightarrow> error + 'df) \<Rightarrow> string \<Rightarrow> string \<Rightarrow> string \<Rightarrow> string \<Rightarrow> string \<Rightarrow> string
     \<Rightarrow> int \<times> int \<Rightarrow> error + 'df \<times> string"
where
  "fetch_market_trends execute product region ba affiliate rate_type service_type year_range =
    (case build_where_clause product region ba affiliate rate_type service_type year_range of
       Inl e \<Rightarrow> Inl e
     | Inr where_stmt \<Rightarrow>
        (let query = ''\<newline>    SELECT \<newline>        year_quarter,\<newline>''
               @ ''        approx_quantile(rate, 0.5) as median_price,\<newline>''
               @ ''        approx_quantile(rate, 0.25) as p25_price,\<newline>''
               @ ''        approx_quantile(rate, 0.75) as p75_price,\<newline>''
               @ ''        count(*) as contract_count\<newline>''
               @ ''    FROM read_parquet('' @ squote s3_path @ '')\<newline>''
               @ ''    WHERE '' @ where_stmt @ ''\<newline>''
               @ ''    GROUP BY 1 ORDER BY 1\<newline>    ''
         in case execute query of
              Inl e \<Rightarrow> Inl e
            | Inr df \<Rightarrow> Inr (df, query)))"

definition fetch_leaderboard ::
  "(string \<Rightarrow> error + 'df) \<Rightarrow> string \<Rightarrow> string \<Rightarrow> string \<Rightarrow> string \<Rightarrow> string \<Rightarrow> string
     \<Rightarrow> string \<Rightarrow> int \<times> int \<Rightarrow> error + 'df"
where
  "fetch_leaderboard execute entity_type product region ba affiliate rate_type service_type year_range =
    (case build_where_clause product region ba affiliate rate_type service_type year_range of
       Inl e \<Rightarrow> Inl e
     | Inr where_stmt \<Rightarrow>
        (let group_col = (if entity_type = ''seller'' then ''seller_company_name''
                          else ''customer_company_name'');
             query = ''\<newline>    SELECT \<newline>        '' @ group_col @ '' as entity_name, \<newline>''
               @ ''        sum(quantity) as total_volume,\<newline>''
               @ ''        count(*) as contracts_count\<newline>''
               @ ''    FROM read_parquet('' @ squote s3_path @ '')\<newline>''
               @ ''    WHERE '' @ where_stmt @ ''\<newline>''
               @ ''    GROUP BY 1\<newline>''
               @ ''    ORDER BY 2 DESC\<newline>''
               @ ''    LIMIT 10\<newline>    ''
         in execute query))"

subsection \<open>Reading a predicate\<close>

text \<open>
  Every condition the builder emits starts with the column it constrains, followed by a
  blank (the year bound starts with the \<^verbatim>\<open>CAST\<close> expression). The column of
  a condition is its text up to the first blank.
\<close>

definition cond_column :: "string \<Rightarrow> string" where
  "cond_column c = takeWhile (\<lambda>x. x \<noteq> CHR '' '') c"

subsection \<open>The steps of the predicate builder\<close>

text \<open>
  The conditions that each step of \<^verbatim>\<open>build_where_clause\<close> appends, one
  definition per step and in the order of the source: the four fixed conditions with the
  year bound, the regional logic, the affiliate filter, the rate type logic and the
  service class logic. Lemma \<open>where_list_parts\<close> below shows that the list of the
  builder is their concatenation; the statements about the builder are derived from it.
\<close>

definition base_conditions :: "string \<Rightarrow> int \<Rightarrow> int \<Rightarrow> string list" where
  "base_conditions product start_year end_year =
     [''product_name = '' @ squote product,
      ''term_name = '' @ squote ''LT'',
      ''rate_units = '' @ squote (if product = ''ENERGY'' then ''$/MWH'' else ''$/KW-MO''),
      ''rate > 0'',
      ''CAST(substr(year_quarter, 1, 4) AS INTEGER) BETWEEN '' @ str_int start_year
         @ '' AND '' @ str_int end_year]"

definition regional_conditions :: "string \<Rightarrow> string \<Rightarrow> error + string list" where
  "regional_conditions region ba_selection =
     (if ba_selection \<noteq> ''All BAs in '' @ region \<and> ba_selection \<noteq> ''All Regions''
      then Inr [''point_of_delivery_balancing_authority = '' @ squote ba_selection]
      else if region \<noteq> ''All Regions''
      then map_sum id
             (\<lambda>regional_bas. [''point_of_delivery_balancing_authority IN (''
                  @ squote (str_join (squote '', '') regional_bas) @ '')''])
             (BA_REGIONS_getitem region)
      else Inr [])"

definition affiliate_conditions :: "string \<Rightarrow> string list" where
  "affiliate_conditions affiliate =
     (if affiliate = ''All'' then []
      else [''contract_affiliate = '' @ (if affiliate = ''Affiliate'' then ''TRUE'' else ''FALSE'')])"

definition rate_type_conditions :: "string \<Rightarrow> string list" where
  "rate_type_conditions rate_type =
     (if rate_type = ''Market-Based'' then [''product_type_name = '' @ squote ''MB'']
      else if rate_type = ''Cost-Based'' then [''product_type_name = '' @ squote ''CB'']
      else [])"

definition service_type_conditions :: "string \<Rightarrow> string list" where
  "service_type_conditions service_type =
     (if service_type = ''Firm'' then [''class_name = '' @ squote ''F'']
      else if service_type = ''Non-Firm'' then [''class_name = '' @ squote ''NF'']
      else [])"

section \<open>The flattened code list\<close>

lemma keep_others: "s \<notin> set bas \<Longrightarrow> [ba. ba \<leftarrow> bas, ba \<noteq> s] = bas"
  by (induction bas) auto

lemma drop_sentinel: "set bas \<subseteq> {s} \<Longrightarrow> [ba. ba \<leftarrow> bas, ba \<noteq> s] = []"
  by (induction bas) auto

text \<open>
  Filtering the sentinel code out of every value of the table is the same as leaving out
  the sentinel's own entry, as long as the sentinel entry holds nothing but the sentinel
  and no other entry holds it.
\<close>

lemma flatten_excluding:
  assumes "\<forall>(label, codes) \<in> set R.
             (label = s \<longrightarrow> set codes \<subseteq> {s}) \<and> (label \<noteq> s \<longrightarrow> s \<notin> set codes)"
  shows "[ba. bas \<leftarrow> map snd R, ba \<leftarrow> bas, ba \<noteq> s] =
         concat (map snd (filter (\<lambda>r. fst r \<noteq> s) R))"
  using assms
proof (induction R)
  case Nil
  then show ?case by simp
next
  case (Cons r R)
  obtain label codes where r: "r = (label, codes)" by (cases r)
  from Cons.prems have rest:
    "\<forall>(label, codes) \<in> set R.
       (label = s \<longrightarrow> set codes \<subseteq> {s}) \<and> (label \<noteq> s \<longrightarrow> s \<notin> set codes)"
    by simp
  have IH: "[ba. bas \<leftarrow> map snd R, ba \<leftarrow> bas, ba \<noteq> s] =
            concat (map snd (filter (\<lambda>r. fst r \<noteq> s) R))"
    by (rule Cons.IH [OF rest])
  show ?case
  proof (cases "label = s")
    case True
    with Cons.prems r have "set codes \<subseteq> {s}" by simp
    then have "[ba. ba \<leftarrow> codes, ba \<noteq> s] = []" by (rule drop_sentinel)
    with IH True r show ?thesis by simp
  next
    case False
    with Cons.prems r have "s \<notin> set codes" by simp
    then have "[ba. ba \<leftarrow> codes, ba \<noteq> s] = codes" by (rule keep_others)
    with IH False r show ?thesis by simp
  qed
qed

lemma region_codes_separate:
  "\<forall>(label, codes) \<in> set BA_REGIONS.
     (label = ''All Regions'' \<longrightarrow> set codes \<subseteq> {''All Regions''}) \<and>
     (label \<noteq> ''All Regions'' \<longrightarrow> ''All Regions'' \<notin> set codes)"
  by (simp add: BA_REGIONS_def)

lemma ALL_BAS_FLAT_other_regions:
  "ALL_BAS_FLAT =
     sort (remdups (concat (map snd (filter (\<lambda>r. fst r \<noteq> ''All Regions'') BA_REGIONS))))"
  unfolding ALL_BAS_FLAT_def
  by (simp only: flatten_excluding [OF region_codes_separate])

lemma walc_in_two_regions:
  "count_list (concat (map snd (filter (\<lambda>r. fst r \<noteq> ''All Regions'') BA_REGIONS))) ''WALC'' = 2"
  by (simp add: BA_REGIONS_def)

lemma count_list_distinct: "distinct xs \<Longrightarrow> x \<in> set xs \<Longrightarrow> count_list xs x = 1"
  by (induction xs) auto

text \<open>
  C3. The flattened list \<^verbatim>\<open>ALL_BAS_FLAT\<close>, which is the code set offered for the
  "All Regions" label, is the deduplicated union of the code lists of every other
  configured region: it has exactly the codes of the concrete regions, each of them
  once, and not the synthetic "All Regions" entry. The concrete regions do overlap
  (\<^verbatim>\<open>WALC\<close> is listed under two of them), and the flattened list still holds that
  code once.
\<close>

theorem ALL_BAS_FLAT_deduplicated_union:
  "set ALL_BAS_FLAT =
     set (concat (map snd (filter (\<lambda>r. fst r \<noteq> ''All Regions'') BA_REGIONS)))
   \<and> distinct ALL_BAS_FLAT
   \<and> ''All Regions'' \<notin> set ALL_BAS_FLAT
   \<and> count_list (concat (map snd (filter (\<lambda>r. fst r \<noteq> ''All Regions'') BA_REGIONS)))
        ''WALC'' = 2
   \<and> count_list ALL_BAS_FLAT ''WALC'' = 1"
proof -
  have s: "set ALL_BAS_FLAT =
     set (concat (map snd (filter (\<lambda>r. fst r \<noteq> ''All Regions'') BA_REGIONS)))"
    by (simp only: ALL_BAS_FLAT_other_regions set_sort set_remdups)
  have d: "distinct ALL_BAS_FLAT"
    by (simp add: ALL_BAS_FLAT_def)
  have n: "''All Regions'' \<notin> set ALL_BAS_FLAT"
    by (simp add: ALL_BAS_FLAT_def)
  have "''WALC'' \<in> set ALL_BAS_FLAT"
    unfolding s by (simp add: BA_REGIONS_def)
  with d have w: "count_list ALL_BAS_FLAT ''WALC'' = 1"
    by (rule count_list_distinct)
  from s d n walc_in_two_regions w show ?thesis
    by (intro conjI)
qed

section \<open>The structure of the predicate\<close>

text \<open>
  An \<^verbatim>\<open>if\<close> that appends to the list on some of its branches appends a list
  that may be empty.
\<close>

lemma append_if_unless: "(if a \<noteq> b then w @ [x] else w) = w @ (if a = b then [] else [x])"
  by simp

lemma append_if_two:
  "(if c then w @ [x] else if d then w @ [y] else w) = w @ (if c then [x] else if d then [y] else [])"
  by simp

lemmas parts_defs =
  base_conditions_def regional_conditions_def affiliate_conditions_def
  rate_type_conditions_def service_type_conditions_def

lemma where_list_parts:
  "where_list product region ba_selection affiliate rate_type service_type (start_year, end_year) =
     map_sum id
       (\<lambda>regional. base_conditions product start_year end_year @ regional
          @ affiliate_conditions affiliate @ rate_type_conditions rate_type
          @ service_type_conditions service_type)
       (regional_conditions region ba_selection)"
proof (cases "ba_selection \<noteq> ''All BAs in '' @ region \<and> ba_selection \<noteq> ''All Regions''")
  case True
  then show ?thesis
    unfolding where_list_def parts_defs Let_def prod.case append_if_unless append_if_two
    by (simp only: simp_thms if_True if_False sum.case map_sum.simps id_apply append_assoc append.simps)
next
  case scope: False
  show ?thesis
  proof (cases "region \<noteq> ''All Regions''")
    case True
    show ?thesis
    proof (cases "BA_REGIONS_getitem region")
      case (Inl e)
      with scope True show ?thesis
        unfolding where_list_def parts_defs Let_def prod.case append_if_unless append_if_two
        by (simp only: simp_thms if_True if_False sum.case map_sum.simps id_apply)
    next
      case (Inr regional_bas)
      with scope True show ?thesis
        unfolding where_list_def parts_defs Let_def prod.case append_if_unless append_if_two
        by (simp only: simp_thms if_True if_False sum.case map_sum.simps id_apply append_assoc append.simps)
    qed
  next
    case False
    with scope show ?thesis
      unfolding where_list_def parts_defs Let_def prod.case append_if_unless append_if_two
      by (simp only: simp_thms if_True if_False sum.case map_sum.simps id_apply append_assoc append.simps)
  qed
qed


lemma columns_base:
  "map cond_column (base_conditions product start_year end_year) =
     [''product_name'', ''term_name'', ''rate_units'', ''rate'', ''CAST(substr(year_quarter,'']"
  by (simp add: base_conditions_def cond_column_def)

lemma columns_regional:
  assumes "regional_conditions region ba_selection = Inr regional"
  shows "map cond_column regional =
     (if ba_selection = ''All BAs in '' @ region \<or> ba_selection = ''All Regions''
      then if region = ''All Regions'' then [] else [''point_of_delivery_balancing_authority'']
      else [''point_of_delivery_balancing_authority''])"
proof (cases "BA_REGIONS_getitem region")
  case (Inl e)
  with assms show ?thesis
    by (auto simp add: regional_conditions_def cond_column_def split: if_splits)
next
  case (Inr regional_bas)
  with assms show ?thesis
    by (auto simp add: regional_conditions_def cond_column_def split: if_splits)
qed

lemma columns_affiliate:
  "map cond_column (affiliate_conditions affiliate) =
     (if affiliate = ''All'' then [] else [''contract_affiliate''])"
  by (simp add: affiliate_conditions_def cond_column_def)

lemma columns_rate_type:
  "map cond_column (rate_type_conditions rate_type) =
     (if rate_type = ''Market-Based'' \<or> rate_type = ''Cost-Based'' then [''product_type_name'']
      else [])"
  by (simp add: rate_type_conditions_def cond_column_def)

lemma columns_service_type:
  "map cond_column (service_type_conditions service_type) =
     (if service_type = ''Firm'' \<or> service_type = ''Non-Firm'' then [''class_name''] else [])"
  by (simp add: service_type_conditions_def cond_column_def)

lemma filter_column_none:
  "X \<notin> set (map cond_column xs) \<Longrightarrow> filter (\<lambda>c. cond_column c = X) xs = []"
  by (induction xs) auto

lemma filter_column_all:
  "set (map cond_column xs) \<subseteq> {X} \<Longrightarrow> filter (\<lambda>c. cond_column c = X) xs = xs"
  by (induction xs) auto





lemma service_type_filter:
  assumes "regional_conditions region ba_selection = Inr regional"
  shows "filter (\<lambda>c. cond_column c = ''class_name'')
           (base_conditions product start_year end_year @ regional
              @ affiliate_conditions affiliate @ rate_type_conditions rate_type
              @ service_type_conditions service_type) = service_type_conditions service_type"
proof -
  have b: "''class_name'' \<notin> set (map cond_column (base_conditions product start_year end_year))"
    by (simp add: columns_base)
  have r: "''class_name'' \<notin> set (map cond_column regional)"
    by (simp add: columns_regional [OF assms])
  have a: "''class_name'' \<notin> set (map cond_column (affiliate_conditions affiliate))"
    by (simp add: columns_affiliate)
  have t: "''class_name'' \<notin> set (map cond_column (rate_type_conditions rate_type))"
    by (simp add: columns_rate_type)
  have s: "set (map cond_column (service_type_conditions service_type)) \<subseteq> {''class_name''}"
    by (auto simp add: columns_service_type)
  show ?thesis
    by (simp only: filter_append filter_column_none [OF b] filter_column_none [OF r]
          filter_column_none [OF a] filter_column_none [OF t] filter_column_all [OF s]
          append_Nil append_Nil2)
qed









section \<open>The claims about the predicate builder\<close>


text \<open>
  C1, as stated, counts four conditions for the default selection (product
  \<^verbatim>\<open>ENERGY\<close>, region and scope "All Regions", every other facet "All", years
  2013 to 2025). The builder does not return a list of four conditions for it.
\<close>

theorem default_selection_not_four_conditions:
  "\<not> (\<exists>cs. where_list ''ENERGY'' ''All Regions'' ''All Regions'' ''All'' ''All'' ''All'' (2013, 2025) = Inr cs
          \<and> length cs = 4)"
  by (simp add: where_list_def)

text \<open>
  C1, amended. For the default selection the predicate has exactly the five conditions
  that the claim itself enumerates, in this order: the product equality, the long-term
  term constant, the unit equality, the positive-rate condition and the year bound; no
  regional, affiliate, rate-basis or service-class condition follows them.
\<close>

theorem default_selection_five_conditions:
  "where_list ''ENERGY'' ''All Regions'' ''All Regions'' ''All'' ''All'' ''All'' (2013, 2025) =
     Inr [''product_name = '' @ squote ''ENERGY'',
          ''term_name = '' @ squote ''LT'',
          ''rate_units = '' @ squote ''$/MWH'',
          ''rate > 0'',
          ''CAST(substr(year_quarter, 1, 4) AS INTEGER) BETWEEN 2013 AND 2025'']
   \<and> build_where_clause ''ENERGY'' ''All Regions'' ''All Regions'' ''All'' ''All'' ''All'' (2013, 2025) =
     Inr (''product_name = 'ENERGY' AND term_name = 'LT' AND rate_units = '$/MWH' AND rate > 0 AND ''
          @ ''CAST(substr(year_quarter, 1, 4) AS INTEGER) BETWEEN 2013 AND 2025'')"
  by (simp add: build_where_clause_def where_list_def str_int_def str_nat.simps digit_char_def)








text \<open>
  C7. With service class "All" the predicate has no condition on the column
  \<^verbatim>\<open>class_name\<close> at all, neither an equality nor a list of admitted codes: it is
  the "Firm" and the "Non-Firm" predicate without their last condition. Hence, whatever
  the engine takes a condition to mean for a row (\<open>holds\<close>), a row that satisfies the
  conditions on the other columns satisfies every condition of the predicate, whatever
  its service-class code is.
\<close>

theorem service_all_adds_no_condition:
  assumes "where_list product region ba affiliate rate_type ''All'' (start_year, end_year) = Inr cs"
  shows "filter (\<lambda>c. cond_column c = ''class_name'') cs = []
     \<and> where_list product region ba affiliate rate_type ''Firm'' (start_year, end_year) =
         Inr (cs @ [''class_name = '' @ squote ''F''])
     \<and> where_list product region ba affiliate rate_type ''Non-Firm'' (start_year, end_year) =
         Inr (cs @ [''class_name = '' @ squote ''NF''])
     \<and> (\<forall>holds. (\<forall>c \<in> set cs. cond_column c \<noteq> ''class_name'' \<longrightarrow> holds c)
                  \<longrightarrow> (\<forall>c \<in> set cs. holds c))"
proof (cases "regional_conditions region ba")
  case (Inl e)
  with assms show ?thesis
    by (simp add: where_list_parts)
next
  case (Inr regional)
  have none: "service_type_conditions ''All'' = []"
    by (simp add: service_type_conditions_def)
  have firm: "service_type_conditions ''Firm'' = [''class_name = '' @ squote ''F'']"
    by (simp add: service_type_conditions_def)
  have non_firm: "service_type_conditions ''Non-Firm'' = [''class_name = '' @ squote ''NF'']"
    by (simp add: service_type_conditions_def)
  from assms Inr have cs: "cs = base_conditions product start_year end_year @ regional
      @ affiliate_conditions affiliate @ rate_type_conditions rate_type
      @ service_type_conditions ''All''"
    by (simp add: where_list_parts)
  have no_class: "filter (\<lambda>c. cond_column c = ''class_name'') cs = []"
    unfolding cs
    using service_type_filter [OF Inr, of product start_year end_year affiliate rate_type "''All''"]
    by (simp only: none)
  have f: "where_list product region ba affiliate rate_type ''Firm'' (start_year, end_year) =
         Inr (cs @ [''class_name = '' @ squote ''F''])"
    using Inr by (simp add: where_list_parts cs none firm)
  have nf: "where_list product region ba affiliate rate_type ''Non-Firm'' (start_year, end_year) =
         Inr (cs @ [''class_name = '' @ squote ''NF''])"
    using Inr by (simp add: where_list_parts cs none non_firm)
  from no_class have "\<forall>c \<in> set cs. cond_column c \<noteq> ''class_name''"
    by (simp add: filter_empty_conv)
  then have rows: "\<forall>holds. (\<forall>c \<in> set cs. cond_column c \<noteq> ''class_name'' \<longrightarrow> holds c)
                  \<longrightarrow> (\<forall>c \<in> set cs. holds c)"
    by blast
  from no_class f nf rows show ?thesis
    by (intro conjI)
qed

text \<open>C7 at the default selection.\<close>

theorem service_all_adds_no_condition_witness:
  "where_list ''ENERGY'' ''All Regions'' ''All Regions'' ''All'' ''All'' ''All'' (2013, 2025) =
     Inr [''product_name = '' @ squote ''ENERGY'',
          ''term_name = '' @ squote ''LT'',
          ''rate_units = '' @ squote ''$/MWH'',
          ''rate > 0'',
          ''CAST(substr(year_quarter, 1, 4) AS INTEGER) BETWEEN 2013 AND 2025'']
   \<and> filter (\<lambda>c. cond_column c = ''class_name'')
         [''product_name = '' @ squote ''ENERGY'',
          ''term_name = '' @ squote ''LT'',
          ''rate_units = '' @ squote ''$/MWH'',
          ''rate > 0'',
          ''CAST(substr(year_quarter, 1, 4) AS INTEGER) BETWEEN 2013 AND 2025''] = []
   \<and> where_list ''ENERGY'' ''All Regions'' ''All Regions'' ''All'' ''All'' ''Firm'' (2013, 2025) =
     Inr [''product_name = '' @ squote ''ENERGY'',
          ''term_name = '' @ squote ''LT'',
          ''rate_units = '' @ squote ''$/MWH'',
          ''rate > 0'',
          ''CAST(substr(year_quarter, 1, 4) AS INTEGER) BETWEEN 2013 AND 2025'',
          ''class_name = '' @ squote ''F'']"
proof -
  have h: "where_list ''ENERGY'' ''All Regions'' ''All Regions'' ''All'' ''All'' ''All'' (2013, 2025) =
     Inr [''product_name = '' @ squote ''ENERGY'',
          ''term_name = '' @ squote ''LT'',
          ''rate_units = '' @ squote ''$/MWH'',
          ''rate > 0'',
          ''CAST(substr(year_quarter, 1, 4) AS INTEGER) BETWEEN 2013 AND 2025'']"
    by (simp add: where_list_def str_int_def str_nat.simps digit_char_def)
  from service_all_adds_no_condition [OF h] h show ?thesis
    by simp
qed








section \<open>The two query shapes\<close>

text \<open>
  C4. For every selection and every engine, the trend query and the leaderboard query are
  built around the same predicate: both fail with the builder's error when it fails, and
  otherwise both carry, after \<^verbatim>\<open>WHERE\<close>, the conditions \<open>cs\<close> of the one list
  of the builder, joined by \<^verbatim>\<open>AND\<close> in the same order.
\<close>

theorem trend_and_leaderboard_same_predicate:
  "fetch_market_trends execute_t product region ba affiliate rate_type service_type year_range =
     (case where_list product region ba affiliate rate_type service_type year_range of
        Inl e \<Rightarrow> Inl e
      | Inr cs \<Rightarrow>
          (let query =
               ''\<newline>    SELECT \<newline>        year_quarter,\<newline>''
               @ ''        approx_quantile(rate, 0.5) as median_price,\<newline>''
               @ ''        approx_quantile(rate, 0.25) as p25_price,\<newline>''
               @ ''        approx_quantile(rate, 0.75) as p75_price,\<newline>''
               @ ''        count(*) as contract_count\<newline>''
               @ ''    FROM read_parquet('' @ squote s3_path @ '')\<newline>''
               @ ''    WHERE '' @ str_join '' AND '' cs @ ''\<newline>''
               @ ''    GROUP BY 1 ORDER BY 1\<newline>    ''
           in map_sum id (\<lambda>df. (df, query)) (execute_t query)))
   \<and> fetch_leaderboard execute_l entity_type product region ba affiliate rate_type service_type year_range =
     (case where_list product region ba affiliate rate_type service_type year_range of
        Inl e \<Rightarrow> Inl e
      | Inr cs \<Rightarrow>
          execute_l
            (''\<newline>    SELECT \<newline>        ''
             @ (if entity_type = ''seller'' then ''seller_company_name'' else ''customer_company_name'')
             @ '' as entity_name, \<newline>''
             @ ''        sum(quantity) as total_volume,\<newline>''
             @ ''        count(*) as contracts_count\<newline>''
             @ ''    FROM read_parquet('' @ squote s3_path @ '')\<newline>''
             @ ''    WHERE '' @ str_join '' AND '' cs @ ''\<newline>''
             @ ''    GROUP BY 1\<newline>''
             @ ''    ORDER BY 2 DESC\<newline>''
             @ ''    LIMIT 10\<newline>    ''))"
proof (cases "where_list product region ba affiliate rate_type service_type year_range")
  case (Inl e)
  then show ?thesis
    by (simp add: fetch_market_trends_def fetch_leaderboard_def build_where_clause_def)
next
  case (Inr cs)
  then have w: "build_where_clause product region ba affiliate rate_type service_type year_range =
      Inr (str_join '' AND '' cs)"
    by (simp add: build_where_clause_def)
  have sum_case: "(case r of Inl e \<Rightarrow> Inl e | Inr df \<Rightarrow> Inr (df, q)) = map_sum id (\<lambda>df. (df, q)) r"
    for r :: "error + 'a" and q :: string
    by (cases r) simp_all
  have t: "fetch_market_trends execute_t product region ba affiliate rate_type service_type year_range =
          (let query =
               ''\<newline>    SELECT \<newline>        year_quarter,\<newline>''
               @ ''        approx_quantile(rate, 0.5) as median_price,\<newline>''
               @ ''        approx_quantile(rate, 0.25) as p25_price,\<newline>''
               @ ''        approx_quantile(rate, 0.75) as p75_price,\<newline>''
               @ ''        count(*) as contract_count\<newline>''
               @ ''    FROM read_parquet('' @ squote s3_path @ '')\<newline>''
               @ ''    WHERE '' @ str_join '' AND '' cs @ ''\<newline>''
               @ ''    GROUP BY 1 ORDER BY 1\<newline>    ''
           in map_sum id (\<lambda>df. (df, query)) (execute_t query))"
    unfolding fetch_market_trends_def w sum.case sum_case ..
  have l: "fetch_leaderboard execute_l entity_type product region ba affiliate rate_type service_type year_range =
          execute_l
            (''\<newline>    SELECT \<newline>        ''
             @ (if entity_type = ''seller'' then ''seller_company_name'' else ''customer_company_name'')
             @ '' as entity_name, \<newline>''
             @ ''        sum(quantity) as total_volume,\<newline>''
             @ ''        count(*) as contracts_count\<newline>''
             @ ''    FROM read_parquet('' @ squote s3_path @ '')\<newline>''
             @ ''    WHERE '' @ str_join '' AND '' cs @ ''\<newline>''
             @ ''    GROUP BY 1\<newline>''
             @ ''    ORDER BY 2 DESC\<newline>''
             @ ''    LIMIT 10\<newline>    '')"
    unfolding fetch_leaderboard_def w Let_def sum.case ..
  show ?thesis
    unfolding Inr sum.case using t l by (rule conjI)
qed

text \<open>
  C8. The leaderboard query of the role seller and that of the role buyer, on the same
  other arguments, are the same text around the same predicate, with the sum of the
  quantity and the row count, the descending order on the second column and the limit of
  ten rows, except for the grouping column: \<^verbatim>\<open>seller_company_name\<close> in the one,
  \<^verbatim>\<open>customer_company_name\<close> in the other.
\<close>

theorem leaderboard_roles_differ_in_group_column:
  "fetch_leaderboard execute ''seller'' product region ba affiliate rate_type service_type year_range =
     (case build_where_clause product region ba affiliate rate_type service_type year_range of
        Inl e \<Rightarrow> Inl e
      | Inr where_stmt \<Rightarrow>
          execute
            (''\<newline>    SELECT \<newline>        '' @ ''seller_company_name''
             @ '' as entity_name, \<newline>''
             @ ''        sum(quantity) as total_volume,\<newline>''
             @ ''        count(*) as contracts_count\<newline>''
             @ ''    FROM read_parquet('' @ squote s3_path @ '')\<newline>''
             @ ''    WHERE '' @ where_stmt @ ''\<newline>''
             @ ''    GROUP BY 1\<newline>''
             @ ''    ORDER BY 2 DESC\<newline>''
             @ ''    LIMIT 10\<newline>    ''))
   \<and> fetch_leaderboard execute ''buyer'' product region ba affiliate rate_type service_type year_range =
     (case build_where_clause product region ba affiliate rate_type service_type year_range of
        Inl e \<Rightarrow> Inl e
      | Inr where_stmt \<Rightarrow>
          execute
            (''\<newline>    SELECT \<newline>        '' @ ''customer_company_name''
             @ '' as entity_name, \<newline>''
             @ ''        sum(quantity) as total_volume,\<newline>''
             @ ''        count(*) as contracts_count\<newline>''
             @ ''    FROM read_parquet('' @ squote s3_path @ '')\<newline>''
             @ ''    WHERE '' @ where_stmt @ ''\<newline>''
             @ ''    GROUP BY 1\<newline>''
             @ ''    ORDER BY 2 DESC\<newline>''
             @ ''    LIMIT 10\<newline>    ''))"
proof -
  have s: "(''seller'' = ''seller'') = True" by simp
  have b: "(''buyer'' = ''seller'') = False" by simp
  show ?thesis
    unfolding fetch_leaderboard_def Let_def s b if_True if_False
    by (rule conjI) (rule refl)+
qed

end
